theory Spec2Isabelle
  imports Complex_Main "HOL-Library.AList"
begin

section \<open>The client factory of \<^verbatim>\<open>python/samples/mem/clients/_client_creator.py\<close>\<close>

text \<open>
  The class \<^verbatim>\<open>ClientCreator\<close> holds a configuration dictionary and a logger; its method
  \<^verbatim>\<open>create_client\<close> assembles keyword arguments, calls the constructor of one of two
  chat-completion client classes of an external SDK, logs, and optionally wraps the client
  in a recorder. The embedding keeps Python's view of the data:
  \<^item> a Python value is a \<open>pyval\<close>; a \<^verbatim>\<open>dict\<close> is an association list in insertion order
    (the order \<^verbatim>\<open>args.items()\<close> iterates in), read with \<open>map_of\<close>;
  \<^item> every exception the code can raise is a \<open>py_error\<close>, and a function that can raise
    returns \<open>py_error + 'a\<close>;
  \<^item> the objects of the external libraries (credentials, token providers, clients, the
    recorder) are symbolic constructors that record the arguments they were called with;
  \<^item> what the code reads from outside itself (the process environment, \<^verbatim>\<open>str()\<close> of a
    value, the client's \<^verbatim>\<open>_resolved_model\<close> attribute) is a field of the record \<open>env\<close>;
  \<^item> the calls on the logger are the list of \<open>log_event\<close>s returned beside the outcome.

  An \<^verbatim>\<open>assert False, msg\<close> raises \<^verbatim>\<open>AssertionError(msg)\<close>, as it does when the interpreter
  runs without the option that strips assertions. What the constructors of the external
  libraries do with their arguments, and whether they raise, is outside the source.
\<close>

subsection \<open>Python values, dictionaries and errors\<close>

text \<open>
  The credential objects of \<^verbatim>\<open>azure.identity\<close>: \<open>DefaultAzureCredential\<close> carries the names of
  the \<^verbatim>\<open>exclude_...\<close> keyword arguments passed as \<^verbatim>\<open>True\<close>.
\<close>

datatype credential =
    DefaultAzureCredential "string list"
  | AzureCliCredential
  | ChainedTokenCredential "credential list"

datatype pyval =
    VNone
  | VBool bool
  | VInt int
  | VFloat real
  | VStr string
  | VList "pyval list"
  | VDict "(string \<times> pyval) list"
  | VTokenProvider credential string

type_synonym py_dict = "(string \<times> pyval) list"

datatype py_error =
    KeyError string
  | AttributeError string
  | TypeError string
  | UnboundLocalError string
  | AssertionError string

text \<open>\<^verbatim>\<open>d[k]\<close> on a dictionary: the value, or \<^verbatim>\<open>KeyError\<close>.\<close>

definition dict_get :: "py_dict \<Rightarrow> string \<Rightarrow> py_error + pyval" where
  "dict_get d k = (case map_of d k of None \<Rightarrow> Inl (KeyError k) | Some v \<Rightarrow> Inr v)"

text \<open>
  \<^verbatim>\<open>d[k] = v\<close>: an existing key keeps its position, a new key goes to the end.
\<close>

definition dict_set :: "py_dict \<Rightarrow> string \<Rightarrow> pyval \<Rightarrow> py_dict" where
  "dict_set d k v = AList.update k v d"

text \<open>\<^verbatim>\<open>list(d.keys())\<close>: the keys in insertion order.\<close>

definition dict_keys :: "py_dict \<Rightarrow> string list" where
  "dict_keys d = map fst d"

text \<open>\<^verbatim>\<open>k in d\<close>.\<close>

definition dict_contains :: "py_dict \<Rightarrow> string \<Rightarrow> bool" where
  "dict_contains d k = (map_of d k \<noteq> None)"

text \<open>
  \<^verbatim>\<open>x[k]\<close> with a string key on an arbitrary value: only a dictionary can be subscripted so.
\<close>

fun subscript :: "pyval \<Rightarrow> string \<Rightarrow> py_error + pyval" where
  "subscript (VDict d) k = dict_get d k"
| "subscript _ k = Inl (TypeError k)"

text \<open>The truth value Python's \<^verbatim>\<open>if\<close> gives a value.\<close>

fun truthy :: "pyval \<Rightarrow> bool" where
  "truthy VNone = False"
| "truthy (VBool b) = b"
| "truthy (VInt i) = (i \<noteq> 0)"
| "truthy (VFloat x) = (x \<noteq> 0)"
| "truthy (VStr s) = (s \<noteq> [])"
| "truthy (VList xs) = (xs \<noteq> [])"
| "truthy (VDict d) = (d \<noteq> [])"
| "truthy (VTokenProvider c s) = True"

text \<open>\<^verbatim>\<open>s.startswith(p)\<close> on strings.\<close>

definition startswith :: "string \<Rightarrow> string \<Rightarrow> bool" where
  "startswith s p = (take (length p) s = p)"

text \<open>\<^verbatim>\<open>sep.join(xs)\<close>.\<close>

fun join :: "string \<Rightarrow> string list \<Rightarrow> string" where
  "join sep [] = []"
| "join sep [x] = x"
| "join sep (x # y # ys) = x @ sep @ join sep (y # ys)"

subsection \<open>The external objects\<close>

text \<open>
  The two client classes of \<^verbatim>\<open>autogen_ext.models.openai\<close>, each holding the keyword arguments
  of its constructor call (\<^verbatim>\<open>**args\<close> copies the dictionary at the call), and the recorder of
  \<^verbatim>\<open>autogen_ext.experimental.task_centric_memory.utils\<close>, holding the client it wraps and
  its second and third arguments (its fourth is always the factory's logger).
\<close>

datatype client =
    OpenAIChatCompletionClient py_dict
  | AzureOpenAIChatCompletionClient py_dict
  | ChatCompletionClientRecorder client pyval pyval

datatype log_event = EnterFunction | Info string | LeaveFunction

record env =
  getenv :: "string \<Rightarrow> string option"
  py_str :: "pyval \<Rightarrow> string"
  resolved_model :: "client \<Rightarrow> pyval"

subsection \<open>The shared arguments (lines 14 to 30)\<close>

text \<open>\<^verbatim>\<open>args[k] = self.config[k]\<close>, for each key of a list in turn.\<close>

fun copy_keys :: "py_dict \<Rightarrow> string list \<Rightarrow> py_dict \<Rightarrow> py_error + py_dict" where
  "copy_keys config [] args = Inr args"
| "copy_keys config (k # ks) args =
     (case dict_get config k of
        Inl e \<Rightarrow> Inl e
      | Inr v \<Rightarrow> copy_keys config ks (dict_set args k v))"

definition reasoning_keys :: "string list" where
  "reasoning_keys = [''reasoning_effort'']"

definition sampling_keys :: "string list" where
  "sampling_keys = [''max_completion_tokens'', ''max_retries'', ''temperature'',
     ''presence_penalty'', ''frequency_penalty'', ''top_p'']"

text \<open>
  \<^verbatim>\<open>args = {}; args["model"] = self.config["model"]\<close>, then the branch on
  \<^verbatim>\<open>args["model"].startswith("o")\<close>; a value that is not a string has no such method.
\<close>

definition create_base_args :: "py_dict \<Rightarrow> py_error + py_dict" where
  "create_base_args config =
     (case dict_get config ''model'' of
        Inl e \<Rightarrow> Inl e
      | Inr model \<Rightarrow>
          (let args = dict_set [] ''model'' model in
           case model of
             VStr m \<Rightarrow>
               if startswith m ''o'' then copy_keys config reasoning_keys args
               else copy_keys config sampling_keys args
           | _ \<Rightarrow> Inl (AttributeError ''startswith'')))"

subsection \<open>The four creation paths (lines 76 to 177)\<close>

definition create_oai_client :: "py_dict \<Rightarrow> py_dict \<Rightarrow> client \<times> string \<times> py_dict" where
  "create_oai_client config args0 =
     (let args = (if dict_contains config ''api_key''
                  then (case map_of config ''api_key'' of
                          None \<Rightarrow> args0
                        | Some v \<Rightarrow> dict_set args0 ''api_key'' v)
                  else args0)
      in (OpenAIChatCompletionClient args, ''  created through OpenAI'', args))"

text \<open>
  The local variables a creation path assigns in its chain of tests; \<open>None\<close> is a local
  that no assignment has bound, and reading it raises \<^verbatim>\<open>UnboundLocalError\<close>.
\<close>

record locals =
  azure_deployment :: "string option"
  azure_endpoint :: "string option"
  model_version :: "string option"

definition no_locals :: locals where
  "no_locals = \<lparr>azure_deployment = None, azure_endpoint = None, model_version = None\<rparr>"

definition read_local :: "string \<Rightarrow> string option \<Rightarrow> py_error + pyval" where
  "read_local name x = (case x of None \<Rightarrow> Inl (UnboundLocalError name) | Some s \<Rightarrow> Inr (VStr s))"

text \<open>
  Lines 89 to 99: an \<^verbatim>\<open>if\<close> without \<^verbatim>\<open>else\<close>, followed by a second \<^verbatim>\<open>if\<close> whose \<^verbatim>\<open>else\<close>
  is \<^verbatim>\<open>assert False, "Unsupported model"\<close>.
\<close>

definition aoai_select :: "pyval \<Rightarrow> py_error + locals" where
  "aoai_select model =
     (let l1 = (if model = VStr ''gpt-4o-2024-11-20''
                then no_locals\<lparr>azure_deployment := Some ''gpt-4o'',
                               azure_endpoint := Some ''https://agentic1.openai.azure.com/''\<rparr>
                else no_locals)
      in if model = VStr ''gpt-4.1''
         then Inr (l1\<lparr>azure_deployment := Some ''gpt-4.1'',
                      azure_endpoint := Some ''https://aipmaker.openai.azure.com/''\<rparr>)
         else Inl (AssertionError ''Unsupported model''))"

text \<open>The model names the two tests compare \<^verbatim>\<open>model\<close> with.\<close>

definition aoai_model_names :: "string list" where
  "aoai_model_names = [''gpt-4o-2024-11-20'', ''gpt-4.1'']"

definition create_aoai_client :: "py_dict \<Rightarrow> py_dict \<Rightarrow> py_error + client \<times> string \<times> py_dict" where
  "create_aoai_client config args0 =
     (let token_provider = VTokenProvider (DefaultAzureCredential [])
                             ''https://cognitiveservices.azure.com/.default''
      in case dict_get config ''model'' of
           Inl e \<Rightarrow> Inl e
         | Inr model \<Rightarrow>
            (case aoai_select model of
               Inl e \<Rightarrow> Inl e
             | Inr l \<Rightarrow>
                (let api_version = ''2024-12-01-preview'';
                     args1 = dict_set args0 ''azure_ad_token_provider'' token_provider
                 in case read_local ''azure_deployment'' (azure_deployment l) of
                      Inl e \<Rightarrow> Inl e
                    | Inr d \<Rightarrow>
                       (let args2 = dict_set args1 ''azure_deployment'' d
                        in case read_local ''azure_endpoint'' (azure_endpoint l) of
                             Inl e \<Rightarrow> Inl e
                           | Inr ep \<Rightarrow>
                              (let args3 = dict_set args2 ''azure_endpoint'' ep;
                                   args = dict_set args3 ''api_version'' (VStr api_version)
                               in Inr (AzureOpenAIChatCompletionClient args,
                                       ''  created through Azure OpenAI'', args))))))"

text \<open>Lines 128 to 150: one \<^verbatim>\<open>if\<close>/\<^verbatim>\<open>elif\<close> chain, closed by the assertion.\<close>

definition trapi_select :: "pyval \<Rightarrow> py_error + locals" where
  "trapi_select model =
     (if model = VStr ''gpt-4o-2024-08-06''
        then Inr (no_locals\<lparr>azure_deployment := Some ''gpt-4o_2024-08-06''\<rparr>)
      else if model = VStr ''gpt-4o-2024-05-13''
        then Inr (no_locals\<lparr>azure_deployment := Some ''gpt-4o_2024-05-13''\<rparr>)
      else if model = VStr ''gpt-4o-2024-11-20''
        then Inr (no_locals\<lparr>azure_deployment := Some ''gpt-4o_2024-11-20''\<rparr>)
      else if model = VStr ''gpt-4.1-2025-04-14''
        then Inr (no_locals\<lparr>azure_deployment := Some ''gpt-4.1_2025-04-14''\<rparr>)
      else if model = VStr ''o1-preview''
        then Inr (no_locals\<lparr>azure_deployment := Some ''o1-preview_2024-09-12''\<rparr>)
      else if model = VStr ''o1''
        then Inr (no_locals\<lparr>azure_deployment := Some ''o1_2024-12-17''\<rparr>)
      else if model = VStr ''o3-mini''
        then Inr (no_locals\<lparr>azure_deployment := Some ''o3-mini_2025-01-31'',
                            model_version := Some ''2025-01-31''\<rparr>)
      else if model = VStr ''o4-mini''
        then Inr (no_locals\<lparr>azure_deployment := Some ''o4-mini_2025-04-16'',
                            model_version := Some ''2025-04-16''\<rparr>)
      else if model = VStr ''o4-mini-2025-04-16''
        then Inr (no_locals\<lparr>azure_deployment := Some ''o4-mini_2025-04-16'',
                            model_version := Some ''2025-04-16''\<rparr>)
      else Inl (AssertionError ''Unsupported model''))"

text \<open>
  The model names the chain compares \<^verbatim>\<open>model\<close> with, in its order, and whether the branch
  of a name assigns \<^verbatim>\<open>model_version\<close>.
\<close>

definition trapi_model_names :: "string list" where
  "trapi_model_names =
     [''gpt-4o-2024-08-06'', ''gpt-4o-2024-05-13'', ''gpt-4o-2024-11-20'',
      ''gpt-4.1-2025-04-14'', ''o1-preview'', ''o1'', ''o3-mini'', ''o4-mini'',
      ''o4-mini-2025-04-16'']"

definition carries_model_version :: "string \<Rightarrow> bool" where
  "carries_model_version m =
     (case trapi_select (VStr m) of
        Inl e \<Rightarrow> False
      | Inr l \<Rightarrow> model_version l \<noteq> None)"

definition trapi_credential :: credential where
  "trapi_credential =
     ChainedTokenCredential
       [AzureCliCredential,
        DefaultAzureCredential
          [''exclude_cli_credential'', ''exclude_environment_credential'',
           ''exclude_shared_token_cache_credential'', ''exclude_developer_cli_credential'',
           ''exclude_powershell_credential'', ''exclude_interactive_browser_credential'',
           ''exclude_visual_studio_code_credentials'']]"

definition create_trapi_client :: "py_dict \<Rightarrow> py_dict \<Rightarrow> py_error + client \<times> string \<times> py_dict" where
  "create_trapi_client config args0 =
     (let token_provider = VTokenProvider trapi_credential ''api://trapi/.default''
      in case dict_get config ''model'' of
           Inl e \<Rightarrow> Inl e
         | Inr model \<Rightarrow>
            (case trapi_select model of
               Inl e \<Rightarrow> Inl e
             | Inr l \<Rightarrow>
                (let trapi_suffix = ''msraif/shared'';
                     endpoint = ''https://trapi.research.microsoft.com/'' @ trapi_suffix;
                     api_version = ''2025-03-01-preview'';
                     args1 = dict_set args0 ''azure_ad_token_provider'' token_provider
                 in case read_local ''azure_deployment'' (azure_deployment l) of
                      Inl e \<Rightarrow> Inl e
                    | Inr d \<Rightarrow>
                       (let args2 = dict_set args1 ''azure_deployment'' d
                        in case (if model = VStr ''o3-mini''
                                 then (case read_local ''model_version'' (model_version l) of
                                         Inl e \<Rightarrow> Inl e
                                       | Inr mv \<Rightarrow> Inr (dict_set args2 ''model_version'' mv))
                                 else Inr args2) of
                             Inl e \<Rightarrow> Inl e
                           | Inr args3 \<Rightarrow>
                              (let args4 = dict_set args3 ''azure_endpoint'' (VStr endpoint);
                                   args = dict_set args4 ''api_version'' (VStr api_version)
                               in Inr (AzureOpenAIChatCompletionClient args,
                                       ''  created through TRAPI'', args))))))"

text \<open>\<^verbatim>\<open>os.getenv\<close> gives \<^verbatim>\<open>None\<close> for a variable that is not set.\<close>

definition os_getenv :: "env \<Rightarrow> string \<Rightarrow> pyval" where
  "os_getenv env name = (case getenv env name of None \<Rightarrow> VNone | Some s \<Rightarrow> VStr s)"

definition create_phi_client :: "env \<Rightarrow> py_dict \<Rightarrow> client \<times> string \<times> py_dict" where
  "create_phi_client env args0 =
     (let args1 = dict_set args0 ''api_key'' (os_getenv env ''PHYAGI_API_KEY'');
          args2 = dict_set args1 ''base_url'' (VStr ''https://gateway.phyagi.net/api'');
          args = dict_set args2 ''model_info''
                   (VDict [(''vision'', VBool False),
                           (''function_calling'', VBool False),
                           (''json_output'', VBool False),
                           (''family'', VStr ''phi''),
                           (''structured_output'', VBool False),
                           (''multiple_system_messages'', VBool False)])
      in (OpenAIChatCompletionClient args, ''  created through Azure OpenAI'', args))"

text \<open>
  The same method with the call of line 176 made explicit: the constructor is a
  parameter that returns a client or raises, and what it raises leaves
  \<^verbatim>\<open>create_phi_client\<close> unhandled. \<open>create_phi_client\<close> above is the case of a constructor
  that accepts every argument dictionary.
\<close>

definition create_phi_client_with ::
  "(py_dict \<Rightarrow> 'e + client) \<Rightarrow> env \<Rightarrow> py_dict \<Rightarrow> 'e + client \<times> string \<times> py_dict" where
  "create_phi_client_with constructor env args0 =
     (let args1 = dict_set args0 ''api_key'' (os_getenv env ''PHYAGI_API_KEY'');
          args2 = dict_set args1 ''base_url'' (VStr ''https://gateway.phyagi.net/api'');
          args = dict_set args2 ''model_info''
                   (VDict [(''vision'', VBool False),
                           (''function_calling'', VBool False),
                           (''json_output'', VBool False),
                           (''family'', VStr ''phi''),
                           (''structured_output'', VBool False),
                           (''multiple_system_messages'', VBool False)])
      in case constructor args of
           Inl e \<Rightarrow> Inl e
         | Inr c \<Rightarrow> Inr (c, ''  created through Azure OpenAI'', args))"

text \<open>
  Two constructors. The first accepts every argument dictionary. The second behaves as
  the client of the \<^verbatim>\<open>openai\<close> package, which \<^verbatim>\<open>OpenAIChatCompletionClient\<close> builds, does
  about the key: given no \<^verbatim>\<open>api_key\<close>, or \<^verbatim>\<open>None\<close>, it reads the variable
  \<^verbatim>\<open>OPENAI_API_KEY\<close> and raises \<^verbatim>\<open>OpenAIError\<close> when that is not set either. That package
  is no part of the source; the second constructor states its behaviour as an assumption.
\<close>

datatype sdk_error = OpenAIError string

definition accepting_client :: "py_dict \<Rightarrow> sdk_error + client" where
  "accepting_client kwargs = Inr (OpenAIChatCompletionClient kwargs)"

definition key_requiring_client :: "env \<Rightarrow> py_dict \<Rightarrow> sdk_error + client" where
  "key_requiring_client env kwargs =
     (if (map_of kwargs ''api_key'' = None \<or> map_of kwargs ''api_key'' = Some VNone) \<and>
         getenv env ''OPENAI_API_KEY'' = None
      then Inl (OpenAIError ''api_key'')
      else Inr (OpenAIChatCompletionClient kwargs))"

subsection \<open>\<^verbatim>\<open>create_client\<close> (lines 11 to 74)\<close>

text \<open>Lines 32 to 43: the dispatch on \<^verbatim>\<open>self.config["provider"]\<close>.\<close>

definition provider_branch ::
  "env \<Rightarrow> py_dict \<Rightarrow> py_dict \<Rightarrow> py_error + client \<times> string \<times> py_dict" where
  "provider_branch env config args =
     (case dict_get config ''provider'' of
        Inl e \<Rightarrow> Inl e
      | Inr provider \<Rightarrow>
          if provider = VStr ''openai'' then Inr (create_oai_client config args)
          else if provider = VStr ''azure_openai'' then create_aoai_client config args
          else if provider = VStr ''trapi'' then create_trapi_client config args
          else if provider = VStr ''phi'' then Inr (create_phi_client env args)
          else Inl (AssertionError ''Invalid client provider''))"

text \<open>
  Lines 50 to 52: one line \<^verbatim>\<open>"    {}: {}".format(k, v)\<close> for each item whose key is not
  \<^verbatim>\<open>"api_key"\<close>, joined by newlines. The keys are strings, which \<^verbatim>\<open>format\<close> copies.
\<close>

definition arg_line :: "env \<Rightarrow> string \<times> pyval \<Rightarrow> string" where
  "arg_line env kv = ''    '' @ fst kv @ '': '' @ py_str env (snd kv)"

definition not_api_key :: "string \<times> pyval \<Rightarrow> bool" where
  "not_api_key kv = (fst kv \<noteq> ''api_key'')"

definition args_str :: "env \<Rightarrow> py_dict \<Rightarrow> string" where
  "args_str env args = join [CHR 0x0A] (map (arg_line env) (filter not_api_key args))"

text \<open>Lines 46 to 53: the three calls of \<^verbatim>\<open>self.logger.info\<close>.\<close>

definition log_details :: "env \<Rightarrow> client \<Rightarrow> string \<Rightarrow> py_dict \<Rightarrow> log_event list" where
  "log_details env c source args =
     [Info (''Client:  '' @ py_str env (resolved_model env c)),
      Info source,
      Info (''  Client args:'' @ [CHR 0x0A] @ args_str env args)]"

text \<open>
  Lines 56 to 65: the wrap under the key \<^verbatim>\<open>"ChatCompletionClientRecorder"\<close>, applied when
  its \<^verbatim>\<open>enabled\<close> entry is true. Python evaluates the arguments of the call from the left.
\<close>

definition wrap_ChatCompletionClientRecorder :: "py_dict \<Rightarrow> client \<Rightarrow> py_error + client" where
  "wrap_ChatCompletionClientRecorder config c =
     (if dict_contains config ''ChatCompletionClientRecorder'' then
        (case dict_get config ''ChatCompletionClientRecorder'' of
           Inl e \<Rightarrow> Inl e
         | Inr wrapper_config \<Rightarrow>
            (case subscript wrapper_config ''enabled'' of
               Inl e \<Rightarrow> Inl e
             | Inr enabled \<Rightarrow>
                 if truthy enabled then
                   (case subscript wrapper_config ''mode'' of
                      Inl e \<Rightarrow> Inl e
                    | Inr mode \<Rightarrow>
                       (case subscript wrapper_config ''session_name'' of
                          Inl e \<Rightarrow> Inl e
                        | Inr session_name \<Rightarrow>
                            Inr (ChatCompletionClientRecorder c mode session_name)))
                 else Inr c))
      else Inr c)"

text \<open>Lines 68 to 71: the wrap under the key \<^verbatim>\<open>"ClientRecorder"\<close>, with no test.\<close>

definition wrap_ClientRecorder :: "py_dict \<Rightarrow> client \<Rightarrow> py_error + client" where
  "wrap_ClientRecorder config c =
     (if dict_contains config ''ClientRecorder'' then
        (case dict_get config ''ClientRecorder'' of
           Inl e \<Rightarrow> Inl e
         | Inr wrapper_config \<Rightarrow>
            (case subscript wrapper_config ''mode'' of
               Inl e \<Rightarrow> Inl e
             | Inr mode \<Rightarrow>
                (case subscript wrapper_config ''session_filename'' of
                   Inl e \<Rightarrow> Inl e
                 | Inr session_filename \<Rightarrow>
                     Inr (ChatCompletionClientRecorder c mode session_filename))))
      else Inr c)"

text \<open>
  The whole method. The log is returned also when an exception ends the call: the calls
  on the logger made before it have happened.
\<close>

definition create_client :: "env \<Rightarrow> py_dict \<Rightarrow> log_event list \<times> (py_error + client)" where
  "create_client env config =
     (let log0 = [EnterFunction] in
      case create_base_args config of
        Inl e \<Rightarrow> (log0, Inl e)
      | Inr args0 \<Rightarrow>
         (case provider_branch env config args0 of
            Inl e \<Rightarrow> (log0, Inl e)
          | Inr (c, source, args) \<Rightarrow>
             (let log1 = log0 @ log_details env c source args in
              case wrap_ChatCompletionClientRecorder config c of
                Inl e \<Rightarrow> (log1, Inl e)
              | Inr c1 \<Rightarrow>
                 (case wrap_ClientRecorder config c1 of
                    Inl e \<Rightarrow> (log1, Inl e)
                  | Inr c2 \<Rightarrow> (log1 @ [LeaveFunction], Inr c2)))))"

subsection \<open>Concrete inputs\<close>

text \<open>
  An environment and configurations on which the definitions above are evaluated: a
  stand-in for \<^verbatim>\<open>str()\<close>, a client whose resolved model is the model it was
  given, an empty process environment, and configurations with every tuning entry.
\<close>

fun example_str :: "pyval \<Rightarrow> string" where
  "example_str (VStr s) = s"
| "example_str VNone = ''None''"
| "example_str (VBool b) = (if b then ''True'' else ''False'')"
| "example_str (VInt i) = ''<int>''"
| "example_str (VFloat x) = ''<float>''"
| "example_str (VList xs) = ''<list>''"
| "example_str (VDict d) = ''<dict>''"
| "example_str (VTokenProvider c s) = ''<function>''"

fun example_resolved_model :: "client \<Rightarrow> pyval" where
  "example_resolved_model (OpenAIChatCompletionClient kw) =
     (case map_of kw ''model'' of None \<Rightarrow> VNone | Some v \<Rightarrow> v)"
| "example_resolved_model (AzureOpenAIChatCompletionClient kw) =
     (case map_of kw ''model'' of None \<Rightarrow> VNone | Some v \<Rightarrow> v)"
| "example_resolved_model (ChatCompletionClientRecorder c m s) = example_resolved_model c"

definition example_env :: env where
  "example_env = \<lparr>getenv = Map.empty, py_str = example_str,
                   resolved_model = example_resolved_model\<rparr>"

text \<open>An environment in which only \<^verbatim>\<open>OPENAI_API_KEY\<close> is set.\<close>

definition openai_key_env :: env where
  "openai_key_env = \<lparr>getenv = [''OPENAI_API_KEY'' \<mapsto> ''sk-env''], py_str = example_str,
                      resolved_model = example_resolved_model\<rparr>"

definition sampling_config :: "string \<Rightarrow> string \<Rightarrow> py_dict" where
  "sampling_config provider model =
     [(''provider'', VStr provider), (''model'', VStr model),
      (''max_completion_tokens'', VInt 4096), (''max_retries'', VInt 3),
      (''temperature'', VFloat 0.8), (''presence_penalty'', VFloat 0),
      (''frequency_penalty'', VFloat 0), (''top_p'', VFloat 1)]"

definition reasoning_config :: "string \<Rightarrow> string \<Rightarrow> py_dict" where
  "reasoning_config provider model =
     [(''provider'', VStr provider), (''model'', VStr model),
      (''reasoning_effort'', VStr ''high'')]"

text \<open>A configuration that lacks the tuning entries of its model.\<close>

definition bare_config :: "string \<Rightarrow> string \<Rightarrow> py_dict" where
  "bare_config provider model = [(''provider'', VStr provider), (''model'', VStr model)]"

text \<open>
  Configurations with a recorder entry: the first kind switched off, and the second kind
  with an \<^verbatim>\<open>enabled\<close> entry of the given value.
\<close>

definition recorder_off_config :: py_dict where
  "recorder_off_config =
     sampling_config ''openai'' ''gpt-4o'' @
     [(''ChatCompletionClientRecorder'',
       VDict [(''enabled'', VBool False), (''mode'', VStr ''record''),
              (''session_name'', VStr ''session'')])]"

definition client_recorder_config :: "bool \<Rightarrow> py_dict" where
  "client_recorder_config enabled =
     sampling_config ''openai'' ''gpt-4o'' @
     [(''ClientRecorder'',
       VDict [(''enabled'', VBool enabled), (''mode'', VStr ''record''),
              (''session_filename'', VStr ''session.yaml'')])]"

text \<open>A configuration of the direct path with a credential.\<close>

definition keyed_config :: "string \<Rightarrow> py_dict" where
  "keyed_config key = sampling_config ''openai'' ''gpt-4o'' @ [(''api_key'', VStr key)]"

section \<open>Properties\<close>

subsection \<open>Dictionaries\<close>

lemma map_of_dict_set: "map_of (dict_set d k v) = (map_of d)(k \<mapsto> v)"
  by (simp add: dict_set_def update_conv')

lemma dict_keys_set_new:
  "k \<notin> set (dict_keys d) \<Longrightarrow> dict_keys (dict_set d k v) = dict_keys d @ [k]"
  by (simp add: dict_set_def dict_keys_def update_keys)

lemma dict_get_Inr: "dict_get d k = Inr v \<longleftrightarrow> map_of d k = Some v"
  by (simp add: dict_get_def split: option.splits)

subsection \<open>The shared arguments\<close>

lemma copy_keys_keys:
  "copy_keys config ks args = Inr a \<Longrightarrow> distinct (dict_keys args @ ks) \<Longrightarrow>
     dict_keys a = dict_keys args @ ks"
proof (induction ks arbitrary: args)
  case Nil
  then show ?case by simp
next
  case (Cons k ks)
  from Cons.prems(1) obtain v where rest: "copy_keys config ks (dict_set args k v) = Inr a"
    by (auto split: sum.splits)
  from Cons.prems(2) have "k \<notin> set (dict_keys args)" by auto
  then have keys: "dict_keys (dict_set args k v) = dict_keys args @ [k]"
    by (rule dict_keys_set_new)
  with Cons.prems(2) have "distinct (dict_keys (dict_set args k v) @ ks)" by auto
  from Cons.IH [OF rest this] keys show ?case by simp
qed

lemma copy_keys_map_of:
  "copy_keys config ks args = Inr a \<Longrightarrow>
     map_of a k = (if k \<in> set ks then map_of config k else map_of args k)"
proof (induction ks arbitrary: args)
  case Nil
  then show ?case by simp
next
  case (Cons k' ks)
  from Cons.prems obtain v where v: "map_of config k' = Some v"
    and rest: "copy_keys config ks (dict_set args k' v) = Inr a"
    by (auto simp: dict_get_Inr split: sum.splits)
  from Cons.IH [OF rest] v show ?case
    by (auto simp: map_of_dict_set)
qed

lemma copy_keys_total:
  "list_all (\<lambda>k. map_of config k \<noteq> None) ks \<Longrightarrow> \<exists>a. copy_keys config ks args = Inr a"
  by (induction ks arbitrary: args) (auto simp: dict_get_def split: option.splits)

lemma copy_keys_cong:
  "list_all (\<lambda>k. map_of config1 k = map_of config2 k) ks \<Longrightarrow>
     copy_keys config1 ks args = copy_keys config2 ks args"
  by (induction ks arbitrary: args) (auto simp: dict_get_def split: option.splits)

lemma create_base_args_Inr:
  "create_base_args config = Inr args \<longleftrightarrow>
     (\<exists>m. map_of config ''model'' = Some (VStr m) \<and>
          copy_keys config (if startswith m ''o'' then reasoning_keys else sampling_keys)
            [(''model'', VStr m)] = Inr args)"
  by (auto simp: create_base_args_def dict_get_def dict_set_def Let_def
           split: option.splits pyval.splits if_splits)

lemma create_base_args_keys:
  assumes "create_base_args config = Inr args"
  shows "\<exists>m. map_of config ''model'' = Some (VStr m) \<and>
           dict_keys args =
             ''model'' # (if startswith m ''o'' then reasoning_keys else sampling_keys)"
proof -
  from assms obtain m where m: "map_of config ''model'' = Some (VStr m)"
    and ck: "copy_keys config (if startswith m ''o'' then reasoning_keys else sampling_keys)
           [(''model'', VStr m)] = Inr args"
    by (auto simp: create_base_args_Inr)
  have "distinct (dict_keys [(''model'', VStr m)] @
          (if startswith m ''o'' then reasoning_keys else sampling_keys))"
    by (simp add: reasoning_keys_def sampling_keys_def dict_keys_def)
  from copy_keys_keys [OF ck this] m show ?thesis by (auto simp: dict_keys_def)
qed

lemma create_base_args_model:
  assumes "create_base_args config = Inr args"
  shows "map_of args ''model'' = map_of config ''model'' \<and> map_of config ''model'' \<noteq> None"
proof -
  from assms obtain m where m: "map_of config ''model'' = Some (VStr m)"
    and ck: "copy_keys config (if startswith m ''o'' then reasoning_keys else sampling_keys)
           [(''model'', VStr m)] = Inr args"
    by (auto simp: create_base_args_Inr)
  from copy_keys_map_of [OF ck, of "''model''"] m show ?thesis
    by (simp add: reasoning_keys_def sampling_keys_def split: if_splits)
qed

lemma create_base_args_total:
  assumes "map_of config ''model'' = Some (VStr m)"
    and "list_all (\<lambda>k. map_of config k \<noteq> None)
           (if startswith m ''o'' then reasoning_keys else sampling_keys)"
  shows "\<exists>args. create_base_args config = Inr args"
  using assms copy_keys_total create_base_args_Inr by blast

subsection \<open>The two argument families\<close>



subsection \<open>The creation paths\<close>

lemma trapi_select_Inr:
  "trapi_select (VStr m) = Inr l \<Longrightarrow> m \<in> set trapi_model_names"
  by (simp add: trapi_select_def trapi_model_names_def split: if_splits)

lemma trapi_select_names:
  "m \<in> set trapi_model_names \<Longrightarrow> \<exists>l d. trapi_select (VStr m) = Inr l \<and> azure_deployment l = Some d"
  by (auto simp add: trapi_select_def trapi_model_names_def no_locals_def)

lemma carries_model_version_iff:
  "carries_model_version m \<longleftrightarrow> m \<in> {''o3-mini'', ''o4-mini'', ''o4-mini-2025-04-16''}"
  by (simp add: carries_model_version_def trapi_select_def no_locals_def)

lemma create_trapi_client_Inr:
  assumes "create_trapi_client config args0 = Inr (c, source, args)"
  shows "\<exists>m l d. map_of config ''model'' = Some (VStr m) \<and> trapi_select (VStr m) = Inr l \<and>
           azure_deployment l = Some d \<and>
           c = AzureOpenAIChatCompletionClient args \<and> source = ''  created through TRAPI'' \<and>
           args = dict_set (dict_set
                    (if m = ''o3-mini''
                     then dict_set (dict_set (dict_set args0 ''azure_ad_token_provider''
                            (VTokenProvider trapi_credential ''api://trapi/.default''))
                            ''azure_deployment'' (VStr d)) ''model_version'' (VStr ''2025-01-31'')
                     else dict_set (dict_set args0 ''azure_ad_token_provider''
                            (VTokenProvider trapi_credential ''api://trapi/.default''))
                            ''azure_deployment'' (VStr d))
                    ''azure_endpoint'' (VStr ''https://trapi.research.microsoft.com/msraif/shared''))
                    ''api_version'' (VStr ''2025-03-01-preview'')"
proof -
  from assms obtain model l where model: "map_of config ''model'' = Some model"
    and l: "trapi_select model = Inr l"
    by (auto simp: create_trapi_client_def dict_get_Inr Let_def split: sum.splits)
  from l obtain m where m: "model = VStr m"
    by (cases model) (auto simp: trapi_select_def)
  from l m obtain d where d: "azure_deployment l = Some d"
    using trapi_select_names [OF trapi_select_Inr] by fastforce
  have mv: "m = ''o3-mini'' \<Longrightarrow> model_version l = Some ''2025-01-31''"
    using l m by (auto simp: trapi_select_def no_locals_def)
  from assms model l m d mv show ?thesis
    by (auto simp: create_trapi_client_def dict_get_def Let_def read_local_def)
qed

lemma create_aoai_client_Inr:
  assumes "create_aoai_client config args0 = Inr (c, source, args)"
  shows "map_of config ''model'' = Some (VStr ''gpt-4.1'') \<and>
         c = AzureOpenAIChatCompletionClient args \<and>
         source = ''  created through Azure OpenAI'' \<and>
         args = dict_set (dict_set (dict_set (dict_set args0 ''azure_ad_token_provider''
                    (VTokenProvider (DefaultAzureCredential [])
                       ''https://cognitiveservices.azure.com/.default''))
                    ''azure_deployment'' (VStr ''gpt-4.1''))
                    ''azure_endpoint'' (VStr ''https://aipmaker.openai.azure.com/''))
                    ''api_version'' (VStr ''2024-12-01-preview'')"
  using assms
  by (auto simp: create_aoai_client_def aoai_select_def dict_get_def Let_def read_local_def
        no_locals_def split: option.splits if_splits)

lemma create_trapi_client_total:
  assumes "map_of config ''model'' = Some (VStr m)" and "m \<in> set trapi_model_names"
  shows "\<exists>c source args. create_trapi_client config args0 = Inr (c, source, args)"
proof -
  from trapi_select_names [OF assms(2)] obtain l d
    where "trapi_select (VStr m) = Inr l" and "azure_deployment l = Some d"
    by blast
  moreover have "m = ''o3-mini'' \<Longrightarrow> model_version l = Some ''2025-01-31''"
    using \<open>trapi_select (VStr m) = Inr l\<close> by (auto simp: trapi_select_def no_locals_def)
  ultimately show ?thesis
    using assms(1)
    by (simp add: create_trapi_client_def dict_get_def Let_def read_local_def)
qed

lemma map_of_create_phi_client:
  "create_phi_client env args0 = (c, source, args) \<Longrightarrow>
     c = OpenAIChatCompletionClient args \<and> source = ''  created through Azure OpenAI'' \<and>
     map_of args = (map_of args0)(''api_key'' \<mapsto> os_getenv env ''PHYAGI_API_KEY'',
       ''base_url'' \<mapsto> VStr ''https://gateway.phyagi.net/api'',
       ''model_info'' \<mapsto> VDict [(''vision'', VBool False),
                           (''function_calling'', VBool False),
                           (''json_output'', VBool False),
                           (''family'', VStr ''phi''),
                           (''structured_output'', VBool False),
                           (''multiple_system_messages'', VBool False)])"
  by (auto simp: create_phi_client_def Let_def map_of_dict_set)

lemma map_of_create_oai_client:
  "create_oai_client config args0 = (c, source, args) \<Longrightarrow>
     c = OpenAIChatCompletionClient args \<and> source = ''  created through OpenAI'' \<and>
     map_of args = (case map_of config ''api_key'' of
                      None \<Rightarrow> map_of args0
                    | Some v \<Rightarrow> (map_of args0)(''api_key'' \<mapsto> v))"
  by (auto simp: create_oai_client_def Let_def map_of_dict_set dict_contains_def
        split: option.splits)

lemma provider_branch_Inr:
  assumes "provider_branch env config args0 = Inr r"
  shows "map_of config ''provider'' = Some (VStr ''openai'') \<and> r = create_oai_client config args0 \<or>
         map_of config ''provider'' = Some (VStr ''azure_openai'') \<and>
           create_aoai_client config args0 = Inr r \<or>
         map_of config ''provider'' = Some (VStr ''trapi'') \<and>
           create_trapi_client config args0 = Inr r \<or>
         map_of config ''provider'' = Some (VStr ''phi'') \<and> r = create_phi_client env args0"
  using assms
  by (auto simp: provider_branch_def dict_get_def split: option.splits if_splits)

text \<open>The deployment names of the two mappings, as the chains assign them.\<close>

lemma trapi_deployments:
  "map (\<lambda>m. map_sum id azure_deployment (trapi_select (VStr m))) trapi_model_names =
     map (Inr \<circ> Some)
       [''gpt-4o_2024-08-06'', ''gpt-4o_2024-05-13'', ''gpt-4o_2024-11-20'',
        ''gpt-4.1_2025-04-14'', ''o1-preview_2024-09-12'', ''o1_2024-12-17'',
        ''o3-mini_2025-01-31'', ''o4-mini_2025-04-16'', ''o4-mini_2025-04-16'']"
  by (simp add: trapi_model_names_def trapi_select_def no_locals_def)

lemma aoai_select_listed:
  "aoai_select (VStr ''gpt-4o-2024-11-20'') = Inl (AssertionError ''Unsupported model'') \<and>
   map_sum id azure_deployment (aoai_select (VStr ''gpt-4.1'')) = Inr (Some ''gpt-4.1'')"
  by (simp add: aoai_select_def no_locals_def)

text \<open>The model versions the chain of \<^verbatim>\<open>create_trapi_client\<close> assigns.\<close>

lemma trapi_select_versions:
  assumes "trapi_select (VStr m) = Inr l"
  shows "model_version l =
           (if m = ''o3-mini'' then Some ''2025-01-31''
            else if m = ''o4-mini'' \<or> m = ''o4-mini-2025-04-16'' then Some ''2025-04-16''
            else None)"
  using assms by (auto simp: trapi_select_def no_locals_def split: if_splits)

lemma trapi_o4_mini_entries:
  "map_sum id azure_deployment (trapi_select (VStr ''o4-mini'')) =
     Inr (Some ''o4-mini_2025-04-16'') \<and>
   map_sum id azure_deployment (trapi_select (VStr ''o4-mini-2025-04-16'')) =
     Inr (Some ''o4-mini_2025-04-16'') \<and>
   map_sum id model_version (trapi_select (VStr ''o4-mini'')) = Inr (Some ''2025-04-16'') \<and>
   map_sum id model_version (trapi_select (VStr ''o4-mini-2025-04-16'')) =
     Inr (Some ''2025-04-16'')"
  by (simp add: trapi_select_def no_locals_def)

subsection \<open>The supported pairs of provider and model\<close>

text \<open>
  Claim C1 says that every pair of a provider and a model of its mapping gives a client.
  For the provider \<^verbatim>\<open>azure_openai\<close> and the model \<^verbatim>\<open>gpt-4o-2024-11-20\<close>, with every
  tuning entry present, \<^verbatim>\<open>create_client\<close> raises the assertion error of an unsupported
  model instead: the test of line 89 is not chained to the test of line 92, whose
  \<^verbatim>\<open>else\<close> then runs.
\<close>

theorem aoai_gpt4o_unsupported:
  "create_client env (sampling_config ''azure_openai'' ''gpt-4o-2024-11-20'') =
     ([EnterFunction], Inl (AssertionError ''Unsupported model''))"
  by (simp add: create_client_def create_base_args_def sampling_config_def dict_get_def
        dict_set_def startswith_def sampling_keys_def provider_branch_def
        create_aoai_client_def aoai_select_def)

text \<open>
  The other entry of that mapping, and the second pair the claim names, do resolve to the
  literals of the source.
\<close>

lemma aoai_gpt41_resolved:
  "snd (create_client env (sampling_config ''azure_openai'' ''gpt-4.1'')) =
     Inr (AzureOpenAIChatCompletionClient
       [(''model'', VStr ''gpt-4.1''), (''max_completion_tokens'', VInt 4096),
        (''max_retries'', VInt 3), (''temperature'', VFloat 0.8),
        (''presence_penalty'', VFloat 0), (''frequency_penalty'', VFloat 0),
        (''top_p'', VFloat 1),
        (''azure_ad_token_provider'',
         VTokenProvider (DefaultAzureCredential [])
           ''https://cognitiveservices.azure.com/.default''),
        (''azure_deployment'', VStr ''gpt-4.1''),
        (''azure_endpoint'', VStr ''https://aipmaker.openai.azure.com/''),
        (''api_version'', VStr ''2024-12-01-preview'')])"
  by (simp add: create_client_def create_base_args_def sampling_config_def dict_get_def
        dict_set_def startswith_def sampling_keys_def provider_branch_def
        create_aoai_client_def aoai_select_def read_local_def no_locals_def
        wrap_ChatCompletionClientRecorder_def wrap_ClientRecorder_def dict_contains_def
        Let_def)

lemma trapi_o1_resolved:
  "snd (create_client env (reasoning_config ''trapi'' ''o1'')) =
     Inr (AzureOpenAIChatCompletionClient
       [(''model'', VStr ''o1''), (''reasoning_effort'', VStr ''high''),
        (''azure_ad_token_provider'', VTokenProvider trapi_credential ''api://trapi/.default''),
        (''azure_deployment'', VStr ''o1_2024-12-17''),
        (''azure_endpoint'', VStr ''https://trapi.research.microsoft.com/msraif/shared''),
        (''api_version'', VStr ''2025-03-01-preview'')])"
  by (simp add: create_client_def create_base_args_def reasoning_config_def dict_get_def
        dict_set_def startswith_def reasoning_keys_def provider_branch_def
        create_trapi_client_def trapi_select_def read_local_def no_locals_def
        wrap_ChatCompletionClientRecorder_def wrap_ClientRecorder_def dict_contains_def
        Let_def)

subsection \<open>The model version of the internal gateway\<close>

text \<open>
  Claim C6 says that exactly two model names of the mapping of \<^verbatim>\<open>create_trapi_client\<close>
  carry a model version. Three branches of the chain assign \<^verbatim>\<open>model_version\<close>: those of
  \<^verbatim>\<open>o3-mini\<close>, \<^verbatim>\<open>o4-mini\<close> and \<^verbatim>\<open>o4-mini-2025-04-16\<close>.
\<close>

theorem trapi_three_names_carry_model_version:
  "filter carries_model_version trapi_model_names =
     [''o3-mini'', ''o4-mini'', ''o4-mini-2025-04-16''] \<and>
   length (filter carries_model_version trapi_model_names) = 3"
  by (simp add: carries_model_version_iff trapi_model_names_def)

text \<open>
  Claim C6, amended. Whenever \<^verbatim>\<open>create_trapi_client\<close> builds a client from the shared
  arguments, the model is one of the nine names of the mapping; the names whose branch
  assigns a model version are the three names \<^verbatim>\<open>o3-mini\<close>, \<^verbatim>\<open>o4-mini\<close> and
  \<^verbatim>\<open>o4-mini-2025-04-16\<close>: the version is \<^verbatim>\<open>2025-01-31\<close> for the first and
  \<^verbatim>\<open>2025-04-16\<close> for the other two, which also share the deployment
  \<^verbatim>\<open>o4-mini_2025-04-16\<close>; and the resolved arguments hold the key \<^verbatim>\<open>model_version\<close>
  (with the value \<^verbatim>\<open>2025-01-31\<close>) for the model \<^verbatim>\<open>o3-mini\<close> and for no other model.
\<close>

theorem trapi_model_version_forwarding:
  assumes "create_base_args config = Inr args0"
    and "create_trapi_client config args0 = Inr (c, source, args)"
  shows "\<exists>m l. map_of config ''model'' = Some (VStr m) \<and> m \<in> set trapi_model_names \<and>
           trapi_select (VStr m) = Inr l \<and>
           carries_model_version m = (m \<in> {''o3-mini'', ''o4-mini'', ''o4-mini-2025-04-16''}) \<and>
           model_version l =
             (if m = ''o3-mini'' then Some ''2025-01-31''
              else if m = ''o4-mini'' \<or> m = ''o4-mini-2025-04-16'' then Some ''2025-04-16''
              else None) \<and>
           map_of args ''model_version'' =
             (if m = ''o3-mini'' then Some (VStr ''2025-01-31'') else None) \<and>
           map_sum id azure_deployment (trapi_select (VStr ''o4-mini'')) =
             Inr (Some ''o4-mini_2025-04-16'') \<and>
           map_sum id azure_deployment (trapi_select (VStr ''o4-mini-2025-04-16'')) =
             Inr (Some ''o4-mini_2025-04-16'') \<and>
           map_sum id model_version (trapi_select (VStr ''o4-mini'')) =
             Inr (Some ''2025-04-16'') \<and>
           map_sum id model_version (trapi_select (VStr ''o4-mini-2025-04-16'')) =
             Inr (Some ''2025-04-16'')"
proof -
  from create_trapi_client_Inr [OF assms(2)] obtain m l d
    where m: "map_of config ''model'' = Some (VStr m)" and l: "trapi_select (VStr m) = Inr l"
      and args: "args = dict_set (dict_set
                    (if m = ''o3-mini''
                     then dict_set (dict_set (dict_set args0 ''azure_ad_token_provider''
                            (VTokenProvider trapi_credential ''api://trapi/.default''))
                            ''azure_deployment'' (VStr d)) ''model_version'' (VStr ''2025-01-31'')
                     else dict_set (dict_set args0 ''azure_ad_token_provider''
                            (VTokenProvider trapi_credential ''api://trapi/.default''))
                            ''azure_deployment'' (VStr d))
                    ''azure_endpoint'' (VStr ''https://trapi.research.microsoft.com/msraif/shared''))
                    ''api_version'' (VStr ''2025-03-01-preview'')"
    by blast
  from create_base_args_keys [OF assms(1)] m
  have "''model_version'' \<notin> set (dict_keys args0)"
    by (auto simp: reasoning_keys_def sampling_keys_def split: if_splits)
  then have none: "map_of args0 ''model_version'' = None"
    by (simp add: dict_keys_def map_of_eq_None_iff)
  have forwarded: "map_of args ''model_version'' =
             (if m = ''o3-mini'' then Some (VStr ''2025-01-31'') else None)"
    using none by (simp add: args map_of_dict_set)
  note version = trapi_select_versions [OF l]
  note names = trapi_select_Inr [OF l]
  note carries = carries_model_version_iff [of m]
  from m l names carries version forwarded trapi_o4_mini_entries show ?thesis
    by blast
qed

theorem trapi_model_version_forwarding_witness:
  "(\<exists>args0 c source args.
      create_base_args (reasoning_config ''trapi'' ''o3-mini'') = Inr args0 \<and>
      create_trapi_client (reasoning_config ''trapi'' ''o3-mini'') args0 =
        Inr (c, source, args) \<and>
      carries_model_version ''o3-mini'' \<and>
      map_of args ''model_version'' = Some (VStr ''2025-01-31'')) \<and>
   (\<exists>args0 c source args l.
      create_base_args (reasoning_config ''trapi'' ''o4-mini'') = Inr args0 \<and>
      create_trapi_client (reasoning_config ''trapi'' ''o4-mini'') args0 =
        Inr (c, source, args) \<and>
      trapi_select (VStr ''o4-mini'') = Inr l \<and>
      model_version l = Some ''2025-04-16'' \<and>
      carries_model_version ''o4-mini'' \<and>
      map_of args ''model_version'' = None)"
proof -
  let ?cfg = "reasoning_config ''trapi'' ''o3-mini''"
  let ?a0 = "[(''model'', VStr ''o3-mini''), (''reasoning_effort'', VStr ''high'')]"
  have h1: "create_base_args ?cfg = Inr ?a0"
    by (simp add: create_base_args_def reasoning_config_def dict_get_def dict_set_def
          startswith_def reasoning_keys_def)
  obtain c s a where h2: "create_trapi_client ?cfg ?a0 = Inr (c, s, a)"
    by (simp add: create_trapi_client_def reasoning_config_def dict_get_def
          trapi_select_def read_local_def no_locals_def Let_def)
  from trapi_model_version_forwarding [OF h1 h2] have
    "carries_model_version ''o3-mini'' \<and>
     map_of a ''model_version'' = Some (VStr ''2025-01-31'')"
    by (auto simp: reasoning_config_def)
  with h1 h2 have first: "\<exists>args0 c source args.
      create_base_args ?cfg = Inr args0 \<and>
      create_trapi_client ?cfg args0 = Inr (c, source, args) \<and>
      carries_model_version ''o3-mini'' \<and>
      map_of args ''model_version'' = Some (VStr ''2025-01-31'')"
    by blast
  let ?cfg4 = "reasoning_config ''trapi'' ''o4-mini''"
  let ?b0 = "[(''model'', VStr ''o4-mini''), (''reasoning_effort'', VStr ''high'')]"
  have g1: "create_base_args ?cfg4 = Inr ?b0"
    by (simp add: create_base_args_def reasoning_config_def dict_get_def dict_set_def
          startswith_def reasoning_keys_def)
  obtain c4 s4 a4 where g2: "create_trapi_client ?cfg4 ?b0 = Inr (c4, s4, a4)"
    by (simp add: create_trapi_client_def reasoning_config_def dict_get_def
          trapi_select_def read_local_def no_locals_def Let_def)
  from trapi_model_version_forwarding [OF g1 g2] have
    "\<exists>l. trapi_select (VStr ''o4-mini'') = Inr l \<and>
       model_version l = Some ''2025-04-16'' \<and>
       carries_model_version ''o4-mini'' \<and>
       map_of a4 ''model_version'' = None"
    by (auto simp: reasoning_config_def)
  with g1 g2 have "\<exists>args0 c source args l.
      create_base_args ?cfg4 = Inr args0 \<and>
      create_trapi_client ?cfg4 args0 = Inr (c, source, args) \<and>
      trapi_select (VStr ''o4-mini'') = Inr l \<and>
      model_version l = Some ''2025-04-16'' \<and>
      carries_model_version ''o4-mini'' \<and>
      map_of args ''model_version'' = None"
    by blast
  with first show ?thesis by blast
qed

subsection \<open>The alternate gateway\<close>

text \<open>
  Claim C7. For every configuration with the provider \<^verbatim>\<open>phi\<close> whose shared arguments are
  built, the provider branch constructs an \<^verbatim>\<open>OpenAIChatCompletionClient\<close> from resolved
  arguments that hold \<^verbatim>\<open>base_url\<close> with the value \<^verbatim>\<open>https://gateway.phyagi.net/api\<close> and
  \<^verbatim>\<open>model_info\<close> with a dictionary in which \<^verbatim>\<open>vision\<close>, \<^verbatim>\<open>function_calling\<close>,
  \<^verbatim>\<open>json_output\<close>, \<^verbatim>\<open>structured_output\<close> and \<^verbatim>\<open>multiple_system_messages\<close> are false and
  \<^verbatim>\<open>family\<close> is the string \<^verbatim>\<open>phi\<close>.
\<close>

theorem phi_resolved_args:
  assumes "create_base_args config = Inr args0"
    and "map_of config ''provider'' = Some (VStr ''phi'')"
  shows "\<exists>source args info.
           provider_branch env config args0 =
             Inr (OpenAIChatCompletionClient args, source, args) \<and>
           map_of args ''base_url'' = Some (VStr ''https://gateway.phyagi.net/api'') \<and>
           map_of args ''model_info'' = Some (VDict info) \<and>
           map_of info ''vision'' = Some (VBool False) \<and>
           map_of info ''function_calling'' = Some (VBool False) \<and>
           map_of info ''json_output'' = Some (VBool False) \<and>
           map_of info ''structured_output'' = Some (VBool False) \<and>
           map_of info ''multiple_system_messages'' = Some (VBool False) \<and>
           map_of info ''family'' = Some (VStr ''phi'')"
proof -
  obtain c source args where r: "create_phi_client env args0 = (c, source, args)"
    by (cases "create_phi_client env args0") auto
  from map_of_create_phi_client [OF r] have c: "c = OpenAIChatCompletionClient args"
    and "map_of args ''base_url'' = Some (VStr ''https://gateway.phyagi.net/api'')"
    and "map_of args ''model_info'' = Some (VDict [(''vision'', VBool False),
                           (''function_calling'', VBool False),
                           (''json_output'', VBool False),
                           (''family'', VStr ''phi''),
                           (''structured_output'', VBool False),
                           (''multiple_system_messages'', VBool False)])"
    by simp_all
  moreover have "provider_branch env config args0 =
      Inr (OpenAIChatCompletionClient args, source, args)"
    using assms(2) r c by (simp add: provider_branch_def dict_get_def)
  ultimately show ?thesis by fastforce
qed

theorem phi_resolved_args_witness:
  "\<exists>args0 source args info.
     create_base_args (sampling_config ''phi'' ''phi-x'') = Inr args0 \<and>
     provider_branch example_env (sampling_config ''phi'' ''phi-x'') args0 =
       Inr (OpenAIChatCompletionClient args, source, args) \<and>
     map_of args ''model_info'' = Some (VDict info) \<and>
     map_of info ''family'' = Some (VStr ''phi'')"
proof -
  let ?cfg = "sampling_config ''phi'' ''phi-x''"
  obtain args0 where h1: "create_base_args ?cfg = Inr args0"
    by (simp add: create_base_args_def sampling_config_def dict_get_def dict_set_def
          startswith_def sampling_keys_def)
  have h2: "map_of ?cfg ''provider'' = Some (VStr ''phi'')"
    by (simp add: sampling_config_def)
  from phi_resolved_args [OF h1 h2, of example_env] h1 show ?thesis by blast
qed

text \<open>
  The method with its constructor call: its outcome is the outcome of the constructor on
  the arguments \<open>create_phi_client\<close> builds.
\<close>

lemma create_phi_client_with_outcome:
  "create_phi_client_with constructor env args0 =
     (case constructor (snd (snd (create_phi_client env args0))) of
        Inl e \<Rightarrow> Inl e
      | Inr c \<Rightarrow> Inr (c, fst (snd (create_phi_client env args0)),
                        snd (snd (create_phi_client env args0))))"
  by (simp add: create_phi_client_with_def create_phi_client_def Let_def split: sum.splits)

lemma create_phi_client_accepting:
  "create_phi_client_with accepting_client env args0 = Inr (create_phi_client env args0)"
  by (simp add: create_phi_client_with_def create_phi_client_def Let_def accepting_client_def)

text \<open>
  Claim C10 says that \<^verbatim>\<open>create_phi_client\<close> does not raise when the variable
  \<^verbatim>\<open>PHYAGI_API_KEY\<close> is not set. The constructor call of line 176 is part of the method:
  with a constructor that requires a key, and no variable set, the \<^verbatim>\<open>None\<close> stored under
  \<^verbatim>\<open>api_key\<close> makes the constructor raise, and the method raises with it.
\<close>

theorem phi_unset_credential_refused:
  "getenv example_env ''PHYAGI_API_KEY'' = None \<and>
   create_phi_client_with (key_requiring_client example_env) example_env
     [(''model'', VStr ''phi-x'')] = Inl (OpenAIError ''api_key'')"
  by (simp add: example_env_def create_phi_client_with_def key_requiring_client_def
        os_getenv_def dict_set_def Let_def)

text \<open>
  Claim C10, amended. When the variable \<^verbatim>\<open>PHYAGI_API_KEY\<close> is not set,
  \<^verbatim>\<open>create_phi_client\<close> raises nothing of its own: it stores \<^verbatim>\<open>None\<close> under the key
  \<^verbatim>\<open>api_key\<close> of the resolved arguments and calls the constructor of
  \<^verbatim>\<open>OpenAIChatCompletionClient\<close> with them. It returns the client when the constructor
  returns one, and raises what the constructor raises otherwise.
\<close>

theorem phi_unset_credential_passed_on:
  assumes "getenv env ''PHYAGI_API_KEY'' = None"
  shows "\<exists>source args.
           create_phi_client env args0 = (OpenAIChatCompletionClient args, source, args) \<and>
           map_of args ''api_key'' = Some VNone \<and>
           create_phi_client_with constructor env args0 =
             (case constructor args of
                Inl e \<Rightarrow> Inl e
              | Inr c \<Rightarrow> Inr (c, source, args))"
proof -
  obtain c source args where r: "create_phi_client env args0 = (c, source, args)"
    by (cases "create_phi_client env args0") auto
  from map_of_create_phi_client [OF r] assms
  have "c = OpenAIChatCompletionClient args" and "map_of args ''api_key'' = Some VNone"
    by (simp_all add: os_getenv_def)
  moreover have "create_phi_client_with constructor env args0 =
             (case constructor args of
                Inl e \<Rightarrow> Inl e
              | Inr c \<Rightarrow> Inr (c, source, args))"
    using r by (simp add: create_phi_client_with_outcome split: sum.splits)
  ultimately show ?thesis using r by simp
qed

theorem phi_unset_credential_passed_on_witness:
  "getenv openai_key_env ''PHYAGI_API_KEY'' = None \<and>
   (\<exists>source args.
      map_of args ''api_key'' = Some VNone \<and>
      key_requiring_client openai_key_env args = Inr (OpenAIChatCompletionClient args) \<and>
      create_phi_client_with (key_requiring_client openai_key_env) openai_key_env
        [(''model'', VStr ''phi-x'')] = Inr (OpenAIChatCompletionClient args, source, args))"
proof -
  have h: "getenv openai_key_env ''PHYAGI_API_KEY'' = None"
    by (simp add: openai_key_env_def)
  from phi_unset_credential_passed_on [OF h, of "[(''model'', VStr ''phi-x'')]"
      "key_requiring_client openai_key_env"]
  obtain source args where a: "map_of args ''api_key'' = Some VNone"
    and r: "create_phi_client_with (key_requiring_client openai_key_env) openai_key_env
        [(''model'', VStr ''phi-x'')] =
          (case key_requiring_client openai_key_env args of
                Inl e \<Rightarrow> Inl e
              | Inr c \<Rightarrow> Inr (c, source, args))"
    by blast
  have k: "key_requiring_client openai_key_env args = Inr (OpenAIChatCompletionClient args)"
    by (simp add: key_requiring_client_def openai_key_env_def)
  with r have "create_phi_client_with (key_requiring_client openai_key_env) openai_key_env
        [(''model'', VStr ''phi-x'')] = Inr (OpenAIChatCompletionClient args, source, args)"
    by simp
  with h a k show ?thesis by blast
qed

subsection \<open>The model entry\<close>

text \<open>
  Claim C9. In every branch of \<^verbatim>\<open>create_client\<close> that constructs a client, the resolved
  arguments hold the key \<^verbatim>\<open>model\<close> with the value of \<^verbatim>\<open>config["model"]\<close>, and they are the
  keyword arguments the client was constructed with.
\<close>

theorem resolved_args_keep_model:
  assumes "create_base_args config = Inr args0"
    and "provider_branch env config args0 = Inr (c, source, args)"
  shows "dict_contains config ''model'' \<and>
         map_of args ''model'' = map_of config ''model'' \<and>
         (c = OpenAIChatCompletionClient args \<or> c = AzureOpenAIChatCompletionClient args)"
proof -
  from create_base_args_model [OF assms(1)]
  have base: "map_of args0 ''model'' = map_of config ''model''"
    and present: "dict_contains config ''model''"
    by (simp_all add: dict_contains_def)
  from provider_branch_Inr [OF assms(2)]
  consider (oai) "create_oai_client config args0 = (c, source, args)"
    | (aoai) "create_aoai_client config args0 = Inr (c, source, args)"
    | (trapi) "create_trapi_client config args0 = Inr (c, source, args)"
    | (phi) "create_phi_client env args0 = (c, source, args)"
    by auto
  then have "map_of args ''model'' = map_of args0 ''model'' \<and>
         (c = OpenAIChatCompletionClient args \<or> c = AzureOpenAIChatCompletionClient args)"
  proof cases
    case oai
    from map_of_create_oai_client [OF oai] show ?thesis
      by (simp split: option.splits)
  next
    case aoai
    from create_aoai_client_Inr [OF aoai] show ?thesis
      by (simp add: map_of_dict_set)
  next
    case trapi
    from create_trapi_client_Inr [OF trapi] show ?thesis
      by (auto simp: map_of_dict_set)
  next
    case phi
    from map_of_create_phi_client [OF phi] show ?thesis
      by simp
  qed
  with base present show ?thesis by simp
qed

theorem resolved_args_keep_model_witness:
  "\<exists>args0 c source args.
     create_base_args (reasoning_config ''openai'' ''o1'') = Inr args0 \<and>
     provider_branch example_env (reasoning_config ''openai'' ''o1'') args0 =
       Inr (c, source, args) \<and>
     map_of args ''model'' = Some (VStr ''o1'')"
proof -
  let ?cfg = "reasoning_config ''openai'' ''o1''"
  obtain args0 where h1: "create_base_args ?cfg = Inr args0"
    by (simp add: create_base_args_def reasoning_config_def dict_get_def dict_set_def
          startswith_def reasoning_keys_def)
  obtain c source args where h2: "provider_branch example_env ?cfg args0 = Inr (c, source, args)"
    by (cases "create_oai_client ?cfg args0")
       (simp add: provider_branch_def reasoning_config_def dict_get_def)
  from resolved_args_keep_model [OF h1 h2] have "map_of args ''model'' = Some (VStr ''o1'')"
    by (simp add: reasoning_config_def)
  with h1 h2 show ?thesis by blast
qed

subsection \<open>The two assertions\<close>

lemma create_client_base_error:
  "create_base_args config = Inl e \<Longrightarrow> create_client env config = ([EnterFunction], Inl e)"
  by (simp add: create_client_def)

lemma create_client_provider_error:
  "create_base_args config = Inr args0 \<Longrightarrow> provider_branch env config args0 = Inl e \<Longrightarrow>
     create_client env config = ([EnterFunction], Inl e)"
  by (simp add: create_client_def)

lemma aoai_select_unlisted:
  "model \<notin> VStr ` set aoai_model_names \<Longrightarrow>
     aoai_select model = Inl (AssertionError ''Unsupported model'')"
  by (auto simp: aoai_select_def aoai_model_names_def)

lemma trapi_select_unlisted:
  "model \<notin> VStr ` set trapi_model_names \<Longrightarrow>
     trapi_select model = Inl (AssertionError ''Unsupported model'')"
  by (auto simp: trapi_select_def trapi_model_names_def)

text \<open>
  Claim C3 says that an unrecognised provider gives the assertion error of an invalid
  provider whatever the rest of the configuration is. The shared arguments are built
  first: a configuration with an unrecognised provider and a model, but without the
  tuning entries of that model, ends in a \<^verbatim>\<open>KeyError\<close> at line 25.
\<close>

theorem unknown_provider_missing_entry:
  "create_client example_env (bare_config ''bogus'' ''gpt-4o'') =
     ([EnterFunction], Inl (KeyError ''max_completion_tokens'')) \<and>
   snd (create_client example_env (bare_config ''bogus'' ''gpt-4o'')) \<noteq>
     Inl (AssertionError ''Invalid client provider'')"
  by (simp add: create_client_def create_base_args_def bare_config_def dict_get_def
        dict_set_def startswith_def sampling_keys_def)

text \<open>
  Claim C3, amended. For every configuration whose provider is none of \<^verbatim>\<open>openai\<close>,
  \<^verbatim>\<open>azure_openai\<close>, \<^verbatim>\<open>trapi\<close> and \<^verbatim>\<open>phi\<close>, \<^verbatim>\<open>create_client\<close> raises after the call of
  \<^verbatim>\<open>enter_function\<close> and before any client is constructed, whatever the rest of the
  configuration is: the provider branch constructs nothing and raises the assertion
  error of an invalid provider, and that error is the outcome of \<^verbatim>\<open>create_client\<close>
  whenever the shared arguments are built (otherwise the outcome is the error of
  building them).
\<close>

theorem unknown_provider_aborts:
  assumes "map_of config ''provider'' = Some provider"
    and "provider \<notin> VStr ` {''openai'', ''azure_openai'', ''trapi'', ''phi''}"
  shows "(\<exists>e. create_client env config = ([EnterFunction], Inl e)) \<and>
         (\<forall>args0. provider_branch env config args0 =
            Inl (AssertionError ''Invalid client provider'')) \<and>
         (\<forall>args0. create_base_args config = Inr args0 \<longrightarrow>
            create_client env config =
              ([EnterFunction], Inl (AssertionError ''Invalid client provider'')))"
proof -
  have branch: "provider_branch env config args0 =
      Inl (AssertionError ''Invalid client provider'')" for args0
    using assms by (auto simp: provider_branch_def dict_get_def)
  have "\<exists>e. create_client env config = ([EnterFunction], Inl e)"
  proof (cases "create_base_args config")
    case (Inl e)
    then show ?thesis by (simp add: create_client_base_error)
  next
    case (Inr args0)
    from create_client_provider_error [OF Inr branch] show ?thesis by blast
  qed
  with branch show ?thesis
    by (simp add: create_client_provider_error)
qed

theorem unknown_provider_aborts_witness:
  "map_of (sampling_config ''bogus'' ''gpt-4o'') ''provider'' = Some (VStr ''bogus'') \<and>
   create_client example_env (sampling_config ''bogus'' ''gpt-4o'') =
     ([EnterFunction], Inl (AssertionError ''Invalid client provider''))"
proof -
  let ?cfg = "sampling_config ''bogus'' ''gpt-4o''"
  have h1: "map_of ?cfg ''provider'' = Some (VStr ''bogus'')"
    by (simp add: sampling_config_def)
  have h2: "VStr ''bogus'' \<notin> VStr ` {''openai'', ''azure_openai'', ''trapi'', ''phi''}"
    by simp
  obtain args0 where h3: "create_base_args ?cfg = Inr args0"
    by (simp add: create_base_args_def sampling_config_def dict_get_def dict_set_def
          startswith_def sampling_keys_def)
  from unknown_provider_aborts [OF h1 h2, of example_env] h3 h1 show ?thesis
    by blast
qed

text \<open>
  Claim C4 says that a mapped provider with a model outside its mapping gives the
  assertion error of an unsupported model. The shared arguments are built first: without
  the tuning entries of the model the call ends in a \<^verbatim>\<open>KeyError\<close> at line 25.
\<close>

theorem unknown_model_missing_entry:
  "create_client example_env (bare_config ''trapi'' ''gpt-5'') =
     ([EnterFunction], Inl (KeyError ''max_completion_tokens'')) \<and>
   snd (create_client example_env (bare_config ''trapi'' ''gpt-5'')) \<noteq>
     Inl (AssertionError ''Unsupported model'')"
  by (simp add: create_client_def create_base_args_def bare_config_def dict_get_def
        dict_set_def startswith_def sampling_keys_def)

text \<open>
  Claim C4, amended. For every configuration with the provider \<^verbatim>\<open>azure_openai\<close> or
  \<^verbatim>\<open>trapi\<close> whose model is none of the names of that provider's mapping,
  \<^verbatim>\<open>create_client\<close> raises and returns no client; whenever the shared arguments are built
  (the model is a string and the tuning entries of its family are present), what it
  raises is the assertion error of an unsupported model.
\<close>

theorem unknown_model_aborts:
  assumes "map_of config ''provider'' = Some (VStr ''azure_openai'') \<and>
             map_of config ''model'' \<notin> Some ` VStr ` set aoai_model_names \<or>
           map_of config ''provider'' = Some (VStr ''trapi'') \<and>
             map_of config ''model'' \<notin> Some ` VStr ` set trapi_model_names"
  shows "(\<exists>e. create_client env config = ([EnterFunction], Inl e)) \<and>
         (\<forall>args0. create_base_args config = Inr args0 \<longrightarrow>
            create_client env config =
              ([EnterFunction], Inl (AssertionError ''Unsupported model'')))"
proof (cases "create_base_args config")
  case (Inl e)
  then show ?thesis by (simp add: create_client_base_error)
next
  case (Inr args0)
  from create_base_args_model [OF Inr] obtain model
    where model: "map_of config ''model'' = Some model"
    by blast
  have "provider_branch env config args0 = Inl (AssertionError ''Unsupported model'')"
    using assms
  proof
    assume a: "map_of config ''provider'' = Some (VStr ''azure_openai'') \<and>
             map_of config ''model'' \<notin> Some ` VStr ` set aoai_model_names"
    with model have "model \<notin> VStr ` set aoai_model_names" by auto
    from aoai_select_unlisted [OF this] a model show ?thesis
      by (simp add: provider_branch_def create_aoai_client_def dict_get_def)
  next
    assume a: "map_of config ''provider'' = Some (VStr ''trapi'') \<and>
             map_of config ''model'' \<notin> Some ` VStr ` set trapi_model_names"
    with model have "model \<notin> VStr ` set trapi_model_names" by auto
    from trapi_select_unlisted [OF this] a model show ?thesis
      by (simp add: provider_branch_def create_trapi_client_def dict_get_def)
  qed
  from create_client_provider_error [OF Inr this] Inr show ?thesis by simp
qed

theorem unknown_model_aborts_witness:
  "map_of (sampling_config ''trapi'' ''gpt-5'') ''provider'' = Some (VStr ''trapi'') \<and>
   map_of (sampling_config ''trapi'' ''gpt-5'') ''model'' \<notin>
     Some ` VStr ` set trapi_model_names \<and>
   create_client example_env (sampling_config ''trapi'' ''gpt-5'') =
     ([EnterFunction], Inl (AssertionError ''Unsupported model''))"
proof -
  let ?cfg = "sampling_config ''trapi'' ''gpt-5''"
  have h1: "map_of ?cfg ''provider'' = Some (VStr ''trapi'') \<and>
            map_of ?cfg ''model'' \<notin> Some ` VStr ` set trapi_model_names"
    by (auto simp: sampling_config_def trapi_model_names_def)
  obtain args0 where h2: "create_base_args ?cfg = Inr args0"
    by (simp add: create_base_args_def sampling_config_def dict_get_def dict_set_def
          startswith_def sampling_keys_def)
  from unknown_model_aborts [of ?cfg example_env] h1 h2 show ?thesis
    by blast
qed

subsection \<open>The recorder\<close>

lemma create_client_constructed:
  assumes "create_base_args config = Inr args0"
    and "provider_branch env config args0 = Inr (c, source, args)"
  shows "create_client env config =
     (case wrap_ChatCompletionClientRecorder config c of
        Inl e \<Rightarrow> ([EnterFunction] @ log_details env c source args, Inl e)
      | Inr c1 \<Rightarrow>
         (case wrap_ClientRecorder config c1 of
            Inl e \<Rightarrow> ([EnterFunction] @ log_details env c source args, Inl e)
          | Inr c2 \<Rightarrow>
              ([EnterFunction] @ log_details env c source args @ [LeaveFunction], Inr c2)))"
  using assms by (simp add: create_client_def Let_def split: sum.splits)

lemma wrap_first_disabled:
  assumes "map_of config ''ChatCompletionClientRecorder'' = Some (VDict w)"
    and "map_of w ''enabled'' = Some enabled" and "\<not> truthy enabled"
  shows "wrap_ChatCompletionClientRecorder config c = Inr c"
  using assms
  by (simp add: wrap_ChatCompletionClientRecorder_def dict_contains_def dict_get_def)

lemma wrap_second_absent:
  "map_of config ''ClientRecorder'' = None \<Longrightarrow> wrap_ClientRecorder config c = Inr c"
  by (simp add: wrap_ClientRecorder_def dict_contains_def)

lemma wrap_second_present:
  assumes "map_of config ''ClientRecorder'' = Some wc"
  shows "wrap_ClientRecorder config c =
     (case subscript wc ''mode'' of
        Inl e \<Rightarrow> Inl e
      | Inr mode \<Rightarrow>
         (case subscript wc ''session_filename'' of
            Inl e \<Rightarrow> Inl e
          | Inr session_filename \<Rightarrow> Inr (ChatCompletionClientRecorder c mode session_filename)))"
  using assms by (simp add: wrap_ClientRecorder_def dict_contains_def dict_get_def)

text \<open>
  Claim C5. Let the provider branch of \<^verbatim>\<open>create_client\<close> have constructed the client
  \<open>c\<close>. If the configuration holds \<^verbatim>\<open>ChatCompletionClientRecorder\<close> with a false
  \<^verbatim>\<open>enabled\<close> entry and does not hold \<^verbatim>\<open>ClientRecorder\<close>, then \<^verbatim>\<open>create_client\<close> returns
  \<open>c\<close> itself. If the configuration holds \<^verbatim>\<open>ClientRecorder\<close>, then whatever
  \<^verbatim>\<open>create_client\<close> returns is a recorder around the client the first step left, built
  from the \<^verbatim>\<open>mode\<close> and \<^verbatim>\<open>session_filename\<close> entries; and it does return that recorder
  whenever these two entries are present, whatever the \<^verbatim>\<open>enabled\<close> entry says: no
  hypothesis mentions it.
\<close>

theorem recorder_wrapping:
  assumes "create_base_args config = Inr args0"
    and "provider_branch env config args0 = Inr (c, source, args)"
  shows "(\<forall>w enabled.
            map_of config ''ChatCompletionClientRecorder'' = Some (VDict w) \<and>
            map_of w ''enabled'' = Some enabled \<and> \<not> truthy enabled \<and>
            map_of config ''ClientRecorder'' = None \<longrightarrow>
            snd (create_client env config) = Inr c) \<and>
         (\<forall>wc c'.
            map_of config ''ClientRecorder'' = Some wc \<and>
            snd (create_client env config) = Inr c' \<longrightarrow>
            (\<exists>inner mode session_filename.
               c' = ChatCompletionClientRecorder inner mode session_filename \<and>
               wrap_ChatCompletionClientRecorder config c = Inr inner \<and>
               subscript wc ''mode'' = Inr mode \<and>
               subscript wc ''session_filename'' = Inr session_filename)) \<and>
         (\<forall>w inner mode session_filename.
            map_of config ''ClientRecorder'' = Some (VDict w) \<and>
            map_of w ''mode'' = Some mode \<and>
            map_of w ''session_filename'' = Some session_filename \<and>
            wrap_ChatCompletionClientRecorder config c = Inr inner \<longrightarrow>
            snd (create_client env config) =
              Inr (ChatCompletionClientRecorder inner mode session_filename))"
proof (intro conjI allI impI)
  fix w enabled
  assume "map_of config ''ChatCompletionClientRecorder'' = Some (VDict w) \<and>
            map_of w ''enabled'' = Some enabled \<and> \<not> truthy enabled \<and>
            map_of config ''ClientRecorder'' = None"
  then show "snd (create_client env config) = Inr c"
    by (simp add: create_client_constructed [OF assms] wrap_first_disabled wrap_second_absent)
next
  fix wc c'
  assume a: "map_of config ''ClientRecorder'' = Some wc \<and>
            snd (create_client env config) = Inr c'"
  then show "\<exists>inner mode session_filename.
               c' = ChatCompletionClientRecorder inner mode session_filename \<and>
               wrap_ChatCompletionClientRecorder config c = Inr inner \<and>
               subscript wc ''mode'' = Inr mode \<and>
               subscript wc ''session_filename'' = Inr session_filename"
    by (auto simp: create_client_constructed [OF assms] wrap_second_present
          split: sum.splits)
next
  fix w inner mode session_filename
  assume "map_of config ''ClientRecorder'' = Some (VDict w) \<and>
            map_of w ''mode'' = Some mode \<and>
            map_of w ''session_filename'' = Some session_filename \<and>
            wrap_ChatCompletionClientRecorder config c = Inr inner"
  then show "snd (create_client env config) =
              Inr (ChatCompletionClientRecorder inner mode session_filename)"
    by (simp add: create_client_constructed [OF assms] wrap_second_present dict_get_def)
qed

theorem recorder_wrapping_witness:
  "(\<exists>args0 c source args.
      create_base_args recorder_off_config = Inr args0 \<and>
      provider_branch example_env recorder_off_config args0 = Inr (c, source, args) \<and>
      snd (create_client example_env recorder_off_config) = Inr c) \<and>
   (\<exists>args0 c source args.
      create_base_args (client_recorder_config False) = Inr args0 \<and>
      provider_branch example_env (client_recorder_config False) args0 =
        Inr (c, source, args) \<and>
      snd (create_client example_env (client_recorder_config False)) =
        Inr (ChatCompletionClientRecorder c (VStr ''record'') (VStr ''session.yaml'')))"
proof -
  let ?off = "recorder_off_config" and ?rec = "client_recorder_config False"
  obtain a1 where b1: "create_base_args ?off = Inr a1"
    by (simp add: create_base_args_def recorder_off_config_def sampling_config_def
          dict_get_def dict_set_def startswith_def sampling_keys_def)
  obtain c1 s1 r1 where p1: "provider_branch example_env ?off a1 = Inr (c1, s1, r1)"
    by (cases "create_oai_client ?off a1")
       (simp add: provider_branch_def recorder_off_config_def sampling_config_def dict_get_def)
  have off: "map_of ?off ''ChatCompletionClientRecorder'' =
        Some (VDict [(''enabled'', VBool False), (''mode'', VStr ''record''),
              (''session_name'', VStr ''session'')]) \<and>
      map_of [(''enabled'', VBool False), (''mode'', VStr ''record''),
              (''session_name'', VStr ''session'')] ''enabled'' = Some (VBool False) \<and>
      \<not> truthy (VBool False) \<and> map_of ?off ''ClientRecorder'' = None"
    by (simp add: recorder_off_config_def sampling_config_def)
  from recorder_wrapping [OF b1 p1] off
  have r1: "snd (create_client example_env ?off) = Inr c1" by blast
  obtain a2 where b2: "create_base_args ?rec = Inr a2"
    by (simp add: create_base_args_def client_recorder_config_def sampling_config_def
          dict_get_def dict_set_def startswith_def sampling_keys_def)
  obtain c2 s2 r2 where p2: "provider_branch example_env ?rec a2 = Inr (c2, s2, r2)"
    by (cases "create_oai_client ?rec a2")
       (simp add: provider_branch_def client_recorder_config_def sampling_config_def
          dict_get_def)
  have rec: "map_of ?rec ''ClientRecorder'' =
        Some (VDict [(''enabled'', VBool False), (''mode'', VStr ''record''),
              (''session_filename'', VStr ''session.yaml'')]) \<and>
      map_of [(''enabled'', VBool False), (''mode'', VStr ''record''),
              (''session_filename'', VStr ''session.yaml'')] ''mode'' = Some (VStr ''record'') \<and>
      map_of [(''enabled'', VBool False), (''mode'', VStr ''record''),
              (''session_filename'', VStr ''session.yaml'')] ''session_filename'' =
        Some (VStr ''session.yaml'') \<and>
      wrap_ChatCompletionClientRecorder ?rec c2 = Inr c2"
    by (simp add: client_recorder_config_def sampling_config_def
          wrap_ChatCompletionClientRecorder_def dict_contains_def)
  from recorder_wrapping [OF b2 p2] rec
  have "snd (create_client example_env ?rec) =
        Inr (ChatCompletionClientRecorder c2 (VStr ''record'') (VStr ''session.yaml''))"
    by blast
  with r1 b1 p1 b2 p2 show ?thesis by blast
qed

subsection \<open>The logged arguments\<close>

lemma filter_dict_set_api_key:
  "filter not_api_key (dict_set d ''api_key'' v) = filter not_api_key d"
  by (induction d) (auto simp: dict_set_def not_api_key_def)

lemma filter_dict_set_other:
  "k \<noteq> ''api_key'' \<Longrightarrow>
     filter not_api_key (dict_set d k v) = dict_set (filter not_api_key d) k v"
  by (induction d) (auto simp: dict_set_def not_api_key_def)

lemma filter_delete_api_key:
  "filter not_api_key (AList.delete ''api_key'' d) = filter not_api_key d"
  by (induction d) (auto simp: not_api_key_def)

lemma args_str_cong:
  "py_str env1 = py_str env2 \<Longrightarrow> filter not_api_key a1 = filter not_api_key a2 \<Longrightarrow>
     args_str env1 a1 = args_str env2 a2"
  by (simp add: args_str_def arg_line_def [abs_def])

lemma create_base_args_cong:
  assumes "\<forall>k. k \<noteq> ''api_key'' \<longrightarrow> map_of config1 k = map_of config2 k"
  shows "create_base_args config1 = create_base_args config2"
proof -
  have "copy_keys config1 reasoning_keys a = copy_keys config2 reasoning_keys a" for a
    using assms by (intro copy_keys_cong) (simp add: reasoning_keys_def)
  moreover have "copy_keys config1 sampling_keys a = copy_keys config2 sampling_keys a" for a
    using assms by (intro copy_keys_cong) (simp add: sampling_keys_def)
  moreover have "dict_get config1 ''model'' = dict_get config2 ''model''"
    using assms by (simp add: dict_get_def)
  ultimately show ?thesis
    by (simp add: create_base_args_def Let_def split: sum.splits pyval.splits)
qed

lemma filter_create_oai_client:
  "create_oai_client config args0 = (c, source, args) \<Longrightarrow>
     filter not_api_key args = filter not_api_key args0"
  by (auto simp: create_oai_client_def Let_def filter_dict_set_api_key
        split: option.splits if_splits)

lemma filter_create_phi_client:
  "create_phi_client env args0 = (c, source, args) \<Longrightarrow>
     filter not_api_key args =
       dict_set (dict_set (filter not_api_key args0)
         ''base_url'' (VStr ''https://gateway.phyagi.net/api''))
         ''model_info'' (VDict [(''vision'', VBool False),
                           (''function_calling'', VBool False),
                           (''json_output'', VBool False),
                           (''family'', VStr ''phi''),
                           (''structured_output'', VBool False),
                           (''multiple_system_messages'', VBool False)])"
  by (auto simp: create_phi_client_def Let_def filter_dict_set_api_key filter_dict_set_other)

lemma create_aoai_client_cong:
  "map_of config1 ''model'' = map_of config2 ''model'' \<Longrightarrow>
     create_aoai_client config1 args0 = create_aoai_client config2 args0"
  by (simp add: create_aoai_client_def dict_get_def)

lemma create_trapi_client_cong:
  "map_of config1 ''model'' = map_of config2 ''model'' \<Longrightarrow>
     create_trapi_client config1 args0 = create_trapi_client config2 args0"
  by (simp add: create_trapi_client_def dict_get_def)

lemma provider_branch_visible:
  assumes same: "\<forall>k. k \<noteq> ''api_key'' \<longrightarrow> map_of config1 k = map_of config2 k"
    and r1: "provider_branch env1 config1 args0 = Inr (c1, s1, a1)"
    and r2: "provider_branch env2 config2 args0 = Inr (c2, s2, a2)"
  shows "filter not_api_key a1 = filter not_api_key a2"
proof -
  from same have provider: "map_of config2 ''provider'' = map_of config1 ''provider''"
    and model: "map_of config1 ''model'' = map_of config2 ''model''"
    by simp_all
  from provider_branch_Inr [OF r1]
  consider (oai) "map_of config1 ''provider'' = Some (VStr ''openai'')"
    | (aoai) "map_of config1 ''provider'' = Some (VStr ''azure_openai'')"
    | (trapi) "map_of config1 ''provider'' = Some (VStr ''trapi'')"
    | (phi) "map_of config1 ''provider'' = Some (VStr ''phi'')"
    by auto
  then show ?thesis
  proof cases
    case oai
    with r1 r2 provider have "create_oai_client config1 args0 = (c1, s1, a1)"
      and "create_oai_client config2 args0 = (c2, s2, a2)"
      by (simp_all add: provider_branch_def dict_get_def)
    then show ?thesis by (simp add: filter_create_oai_client)
  next
    case aoai
    with r1 r2 provider have "create_aoai_client config1 args0 = Inr (c1, s1, a1)"
      and "create_aoai_client config2 args0 = Inr (c2, s2, a2)"
      by (simp_all add: provider_branch_def dict_get_def)
    with create_aoai_client_cong [OF model, of args0] show ?thesis by simp
  next
    case trapi
    with r1 r2 provider have "create_trapi_client config1 args0 = Inr (c1, s1, a1)"
      and "create_trapi_client config2 args0 = Inr (c2, s2, a2)"
      by (simp_all add: provider_branch_def dict_get_def)
    with create_trapi_client_cong [OF model, of args0] show ?thesis by simp
  next
    case phi
    with r1 r2 provider have "create_phi_client env1 args0 = (c1, s1, a1)"
      and "create_phi_client env2 args0 = (c2, s2, a2)"
      by (simp_all add: provider_branch_def dict_get_def)
    then show ?thesis by (simp add: filter_create_phi_client)
  qed
qed

lemma create_client_logged:
  assumes "create_base_args config = Inr args0"
    and "provider_branch env config args0 = Inr (c, source, args)"
  shows "fst (create_client env config) ! 3 =
           Info (''  Client args:'' @ [CHR 0x0A] @ args_str env args)"
  by (simp add: create_client_constructed [OF assms] log_details_def split: sum.splits)

text \<open>
  Claim C8. Take two runs of \<^verbatim>\<open>create_client\<close> that both reach the logging step, on
  configurations that agree on every key but \<^verbatim>\<open>api_key\<close> (and in environments that may
  differ in the variables they set). The dump of the resolved arguments, which is the
  text of the third \<^verbatim>\<open>info\<close> call after the words \<^verbatim>\<open>Client args:\<close>, is the same string in
  both runs, and it is the string obtained with the \<^verbatim>\<open>api_key\<close> entry deleted from, or
  set to any value in, the resolved arguments.
\<close>

theorem dump_omits_api_key:
  assumes "\<forall>k. k \<noteq> ''api_key'' \<longrightarrow> map_of config1 k = map_of config2 k"
    and "py_str env1 = py_str env2"
    and "create_base_args config1 = Inr b1"
    and "provider_branch env1 config1 b1 = Inr (c1, s1, a1)"
    and "create_base_args config2 = Inr b2"
    and "provider_branch env2 config2 b2 = Inr (c2, s2, a2)"
  shows "fst (create_client env1 config1) ! 3 =
           Info (''  Client args:'' @ [CHR 0x0A] @ args_str env1 a1) \<and>
         fst (create_client env2 config2) ! 3 =
           Info (''  Client args:'' @ [CHR 0x0A] @ args_str env2 a2) \<and>
         args_str env1 a1 = args_str env2 a2 \<and>
         args_str env1 a1 = args_str env1 (AList.delete ''api_key'' a1) \<and>
         (\<forall>v. args_str env1 a1 = args_str env1 (dict_set a1 ''api_key'' v))"
proof -
  from create_base_args_cong [OF assms(1)] assms(3,5) have "b2 = b1" by simp
  with assms(6) have r2: "provider_branch env2 config2 b1 = Inr (c2, s2, a2)" by simp
  from provider_branch_visible [OF assms(1) assms(4) r2]
  have "filter not_api_key a1 = filter not_api_key a2" .
  with assms(2) have "args_str env1 a1 = args_str env2 a2" by (rule args_str_cong)
  moreover have "args_str env1 a1 = args_str env1 (AList.delete ''api_key'' a1)"
    by (simp add: args_str_def filter_delete_api_key)
  moreover have "args_str env1 a1 = args_str env1 (dict_set a1 ''api_key'' v)" for v
    by (simp add: args_str_def filter_dict_set_api_key)
  ultimately show ?thesis
    using create_client_logged [OF assms(3,4)] create_client_logged [OF assms(5,6)]
    by blast
qed

theorem dump_omits_api_key_witness:
  "\<exists>b1 c1 s1 a1 b2 c2 s2 a2.
     create_base_args (keyed_config ''sk-1'') = Inr b1 \<and>
     provider_branch example_env (keyed_config ''sk-1'') b1 = Inr (c1, s1, a1) \<and>
     create_base_args (keyed_config ''sk-2'') = Inr b2 \<and>
     provider_branch example_env (keyed_config ''sk-2'') b2 = Inr (c2, s2, a2) \<and>
     map_of a1 ''api_key'' = Some (VStr ''sk-1'') \<and>
     map_of a2 ''api_key'' = Some (VStr ''sk-2'') \<and>
     fst (create_client example_env (keyed_config ''sk-1'')) ! 3 =
       fst (create_client example_env (keyed_config ''sk-2'')) ! 3"
proof -
  let ?k1 = "keyed_config ''sk-1''" and ?k2 = "keyed_config ''sk-2''"
  have same: "\<forall>k. k \<noteq> ''api_key'' \<longrightarrow> map_of ?k1 k = map_of ?k2 k"
    by (simp add: keyed_config_def sampling_config_def)
  have str: "py_str example_env = py_str example_env" by simp
  obtain b1 where b1: "create_base_args ?k1 = Inr b1"
    by (simp add: create_base_args_def keyed_config_def sampling_config_def
          dict_get_def dict_set_def startswith_def sampling_keys_def)
  obtain b2 where b2: "create_base_args ?k2 = Inr b2"
    by (simp add: create_base_args_def keyed_config_def sampling_config_def
          dict_get_def dict_set_def startswith_def sampling_keys_def)
  obtain c1 s1 a1 where p1: "provider_branch example_env ?k1 b1 = Inr (c1, s1, a1)"
    by (cases "create_oai_client ?k1 b1")
       (simp add: provider_branch_def keyed_config_def sampling_config_def dict_get_def)
  obtain c2 s2 a2 where p2: "provider_branch example_env ?k2 b2 = Inr (c2, s2, a2)"
    by (cases "create_oai_client ?k2 b2")
       (simp add: provider_branch_def keyed_config_def sampling_config_def dict_get_def)
  from p1 have k1: "map_of a1 ''api_key'' = Some (VStr ''sk-1'')"
    by (auto simp: provider_branch_def keyed_config_def sampling_config_def dict_get_def
          create_oai_client_def dict_contains_def map_of_dict_set Let_def)
  from p2 have k2: "map_of a2 ''api_key'' = Some (VStr ''sk-2'')"
    by (auto simp: provider_branch_def keyed_config_def sampling_config_def dict_get_def
          create_oai_client_def dict_contains_def map_of_dict_set Let_def)
  from dump_omits_api_key [OF same str b1 p1 b2 p2]
  have "fst (create_client example_env ?k1) ! 3 = fst (create_client example_env ?k2) ! 3"
    by simp
  with b1 p1 b2 p2 k1 k2 show ?thesis by blast
qed

end
